theory Spec2Isabelle
  imports Main "HOL-Library.Sublist" "HOL-Library.AList"
begin

section \<open>Data model of \<^verbatim>\<open>litestar/_signature/model.py\<close>\<close>

text \<open>
  Python values that travel through the signature model: constraint values, defaults and raw
  input.  Only the shapes the module inspects are kept apart.
\<close>

datatype pyval =
    PNone
  | PBool bool
  | PInt int
  | PStr string
  | PList "pyval list"
  | PDict "(string \<times> pyval) list"

text \<open>Python truthiness, as used by \<^verbatim>\<open>if x := ...\<close> and \<^verbatim>\<open>if kwarg.cookie\<close>.\<close>

fun truthy :: "pyval \<Rightarrow> bool" where
  "truthy PNone = False"
| "truthy (PBool b) = b"
| "truthy (PInt i) = (i \<noteq> 0)"
| "truthy (PStr s) = (s \<noteq> [])"
| "truthy (PList xs) = (xs \<noteq> [])"
| "truthy (PDict d) = (d \<noteq> [])"

text \<open>
  \<^verbatim>\<open>class ErrorMessage(TypedDict)\<close>: \<^verbatim>\<open>key\<close> and \<^verbatim>\<open>source\<close> are \<^verbatim>\<open>NotRequired\<close>, so an
  absent entry of the dictionary is \<open>None\<close>.
\<close>

datatype source = Cookie | Body | Header | Query

record ErrorMessage =
  key :: "string option"
  message :: string
  source :: "source option"

text \<open>
  The Python exceptions that building a model can raise: \<^verbatim>\<open>TypeError\<close> and \<^verbatim>\<open>KeyError\<close> from the
  \<^verbatim>\<open>typing\<close> constructs and dictionary accesses, \<^verbatim>\<open>TypeError\<close> and \<^verbatim>\<open>ValueError\<close> from the
  constructor of \<^verbatim>\<open>msgspec.Meta\<close>, \<^verbatim>\<open>ImproperlyConfigured\<close> from the validation of the dependency
  names.
\<close>

datatype error = TypeError | KeyError | ValueError | ImproperlyConfigured

text \<open>
  Type expressions.  \<^verbatim>\<open>Optional[X]\<close> is \<^verbatim>\<open>Union[X, None]\<close>; \<^verbatim>\<open>Annotated[T, m1, ...]\<close> keeps its
  metadata in order.  A \<^verbatim>\<open>msgspec.Meta\<close> object is kept as the keyword arguments it was built
  from.  The constructor \<^verbatim>\<open>Meta(**kwargs)\<close> checks its arguments and can raise; it belongs to
  msgspec, so the builder below takes it as a parameter that returns the object or the error.
\<close>

datatype meta = Meta "(string \<times> pyval) list"

datatype ty =
    TName string
  | TNone
  | TAny
  | TUnion "ty list"
  | TAnnotated ty "meta list"

text \<open>
  The keyword definitions a parameter can carry.  \<^verbatim>\<open>ParameterKwarg\<close> is a \<^verbatim>\<open>KwargDefinition\<close>;
  \<^verbatim>\<open>OtherKwarg\<close> stands for the remaining \<^verbatim>\<open>KwargDefinition\<close> subclasses; \<^verbatim>\<open>DependencyKwarg\<close> is
  not a \<^verbatim>\<open>KwargDefinition\<close>.

  Modelled from the spec: \<^verbatim>\<open>litestar.params\<close> and \<^verbatim>\<open>litestar.utils.dataclass.simple_asdict\<close> are
  not among the sources.  The spec describes a ParameterConstraint as a ``mapping of
  constraint-name to value ... plus flags indicating the parameter's data source preference'',
  so the definition carries that mapping (what \<^verbatim>\<open>simple_asdict(..., exclude_empty=True)\<close> returns,
  in order) and the two attributes \<^verbatim>\<open>cookie\<close> and \<^verbatim>\<open>header\<close> the module reads.
\<close>

datatype kwarg_definition =
    ParameterKwarg (asdict: "(string \<times> pyval) list") (cookie: pyval) (header: pyval)
  | OtherKwarg (asdict: "(string \<times> pyval) list")
  | DependencyKwarg (skip_validation: bool)

fun is_KwargDefinition :: "kwarg_definition \<Rightarrow> bool" where
  "is_KwargDefinition (ParameterKwarg _ _ _) = True"
| "is_KwargDefinition (OtherKwarg _) = True"
| "is_KwargDefinition (DependencyKwarg _) = False"

fun is_ParameterKwarg :: "kwarg_definition \<Rightarrow> bool" where
  "is_ParameterKwarg (ParameterKwarg _ _ _) = True"
| "is_ParameterKwarg _ = False"

text \<open>
  \<^verbatim>\<open>FieldDefinition\<close> (read only).  \<^verbatim>\<open>default_value\<close> is the attribute \<^verbatim>\<open>default\<close>, which is only
  read when \<^verbatim>\<open>has_default\<close> holds.
\<close>

record FieldDefinition =
  name :: string
  annotation :: ty
  kwarg_definition :: "kwarg_definition option"
  is_optional :: bool
  is_union :: bool
  has_default :: bool
  default_value :: pyval

text \<open>
  The class-level data of a signature model (\<^verbatim>\<open>ClassVar\<close>s of the class that \<^verbatim>\<open>create\<close> builds)
  and the struct fields handed to \<^verbatim>\<open>defstruct\<close>.  A default of \<open>None\<close> is \<^verbatim>\<open>NODEFAULT\<close>;
  \<^verbatim>\<open>model_fields\<close> is the class variable \<^verbatim>\<open>fields\<close>.
\<close>

record SignatureModel =
  model_name :: string
  struct_fields :: "(string \<times> ty \<times> pyval option) list"
  return_annotation :: ty
  dependency_name_set :: "string set"
  model_fields :: "(string \<times> FieldDefinition) list"

text \<open>
  The connection, as far as the module reads it: \<^verbatim>\<open>conn_method\<close> is the attribute \<^verbatim>\<open>method\<close>,
  \<open>None\<close> when the connection has no such attribute (a websocket); \<^verbatim>\<open>query_params\<close> is used
  for membership tests of keys only.
\<close>

record ASGIConnection =
  conn_method :: "string option"
  url :: string
  query_params :: "(string \<times> string) list"

datatype scope_method = HttpMethod string | WEBSOCKET

text \<open>
  The two exceptions of the module.  The \<^verbatim>\<open>detail\<close> text
  \<^verbatim>\<open>f"Validation failed for {method} {connection.url}"\<close> is kept as its two interpolated parts.
\<close>

datatype exception =
    ValidationException (detail: "scope_method \<times> string") (extra: "ErrorMessage list")
  | InternalServerException

section \<open>The error classifier: \<^verbatim>\<open>SignatureModel._create_exception\<close>\<close>

definition is_client_error :: "SignatureModel \<Rightarrow> ErrorMessage \<Rightarrow> bool" where
  "is_client_error cls err_message \<longleftrightarrow>
     (key err_message \<noteq> None \<and> the (key err_message) \<notin> dependency_name_set cls)
     \<or> key err_message = None"

definition create_exception :: "SignatureModel \<Rightarrow> ASGIConnection \<Rightarrow> ErrorMessage list \<Rightarrow> exception" where
  "create_exception cls connection messages =
     (let method' = (case conn_method connection of Some m \<Rightarrow> HttpMethod m | None \<Rightarrow> WEBSOCKET);
          client_errors = filter (is_client_error cls) messages
      in if client_errors \<noteq> []
         then ValidationException (method', url connection) client_errors
         else InternalServerException)"

section \<open>String helpers\<close>

text \<open>
  \<^verbatim>\<open>str.split(sep)\<close> for a non-empty separator: the pieces between successive non-overlapping
  occurrences of \<open>sep\<close>, scanning from the left.  \<open>cur\<close> is the piece being read.  The module
  only ever passes the literal \<^verbatim>\<open>" - "\<close>; Python raises \<^verbatim>\<open>ValueError\<close> for an empty separator,
  a case the recursion below never treats as an occurrence.
\<close>

function split_from :: "string \<Rightarrow> string \<Rightarrow> string \<Rightarrow> string list" where
  "split_from sep cur [] = [cur]"
| "split_from sep cur (c # cs) =
     (if sep \<noteq> [] \<and> prefix sep (c # cs)
      then cur # split_from sep [] (drop (length sep) (c # cs))
      else split_from sep (cur @ [c]) cs)"
  by pat_completeness auto
termination
  by (relation "measure (\<lambda>(sep, cur, s). length s)") auto

definition split :: "string \<Rightarrow> string \<Rightarrow> string list" where
  "split sep s = split_from sep [] s"

text \<open>\<^verbatim>\<open>sep.join(xs)\<close>.\<close>

fun join :: "string \<Rightarrow> string list \<Rightarrow> string" where
  "join sep [] = []"
| "join sep [x] = x"
| "join sep (x # y # ys) = x @ sep @ join sep (y # ys)"

text \<open>
  \<^verbatim>\<open>ERR_RE = re.compile(r"`\$\.(.+)`$")\<close> and \<^verbatim>\<open>ERR_RE.search(s)\<close>, returning group 1.
  \<open>match_here\<close> matches the pattern at the start of its argument: the literal prefix, then
  \<^verbatim>\<open>(.+)\<close> (one or more characters other than a newline, greedy), a backquote, and \<^verbatim>\<open>$\<close>, which
  holds at the end of the string or just before a newline that ends it.  \<open>ERR_RE_search\<close> tries
  the start positions from the left.
\<close>

definition newline :: char where
  "newline = CHR 0x0A"

definition backquote :: char where
  "backquote = CHR 0x60"

definition match_here :: "string \<Rightarrow> string option" where
  "match_here s =
     (if prefix [backquote, CHR ''$'', CHR ''.''] s
      then (let r = drop 3 s;
                r' = (if r \<noteq> [] \<and> last r = newline then butlast r else r)
            in if r' \<noteq> [] \<and> last r' = backquote \<and> butlast r' \<noteq> []
                    \<and> newline \<notin> set (butlast r')
               then Some (butlast r') else None)
      else None)"

fun ERR_RE_search :: "string \<Rightarrow> string option" where
  "ERR_RE_search [] = None"
| "ERR_RE_search (c # cs) =
     (case match_here (c # cs) of Some g \<Rightarrow> Some g | None \<Rightarrow> ERR_RE_search cs)"

text \<open>\<^verbatim>\<open>str(loc)\<close> for the segments of a location path, which are strings or integers.\<close>

datatype loc = LocStr string | LocInt int

fun digits :: "nat \<Rightarrow> string" where
  "digits n = (if n < 10 then [char_of (48 + n)] else digits (n div 10) @ [char_of (48 + n mod 10)])"

fun str_loc :: "loc \<Rightarrow> string" where
  "str_loc (LocStr s) = s"
| "str_loc (LocInt i) = (if i < 0 then CHR ''-'' # digits (nat (- i)) else digits (nat i))"

section \<open>The error aggregator: \<^verbatim>\<open>SignatureModel._build_error_message\<close>\<close>

definition build_error_message ::
  "SignatureModel \<Rightarrow> string list \<Rightarrow> string \<Rightarrow> ASGIConnection \<Rightarrow> ErrorMessage" where
  "build_error_message cls keys exc_msg connection =
     (let msg = \<lparr> key = None, message = hd (split '' - '' exc_msg), source = None \<rparr>
      in if keys = [] then msg
         else
           (let k = join ''.'' keys;
                msg = msg \<lparr> key := Some k \<rparr>
            in if k \<in> set (map fst (query_params connection))
               then msg \<lparr> source := Some Query \<rparr>
               else
                 (case map_of (model_fields cls) k of
                    Some fd \<Rightarrow>
                      (case kwarg_definition fd of
                         Some (ParameterKwarg m c h) \<Rightarrow>
                           msg \<lparr> source :=
                                  Some (if truthy c then Cookie
                                        else if truthy h then Header
                                        else Query) \<rparr>
                       | _ \<Rightarrow> msg)
                  | None \<Rightarrow> msg)))"

section \<open>The pipeline: \<^verbatim>\<open>SignatureModel.parse_values_from_connection_kwargs\<close>\<close>

text \<open>
  \<^verbatim>\<open>msgspec.convert\<close> is an external primitive: the pipeline takes it as a parameter.  It either
  returns a struct (kept as the dictionary \<^verbatim>\<open>to_dict\<close> gives), or raises pydantic's
  \<^verbatim>\<open>ValidationError\<close>, whose \<^verbatim>\<open>errors()\<close> are pairs of a location and a message, or raises
  msgspec's \<^verbatim>\<open>ValidationError\<close>, of which only \<^verbatim>\<open>str(e)\<close> is read.
\<close>

datatype convert_result =
    Converted "(string \<times> pyval) list"
  | PydanticValidationError "(loc list \<times> string) list"
  | ValidationError string

type_synonym convert = "(string \<times> pyval) list \<Rightarrow> SignatureModel \<Rightarrow> convert_result"

definition to_dict :: "(string \<times> pyval) list \<Rightarrow> (string \<times> pyval) list" where
  "to_dict self = self"

text \<open>The messages collected in each \<^verbatim>\<open>except\<close> branch, in the order they are appended.\<close>

definition pydantic_messages ::
  "SignatureModel \<Rightarrow> ASGIConnection \<Rightarrow> (loc list \<times> string) list \<Rightarrow> ErrorMessage list" where
  "pydantic_messages cls connection errors =
     foldl (\<lambda>messages (loc, msg).
              messages @ [build_error_message cls (map str_loc loc) msg connection])
           [] errors"

definition msgspec_messages ::
  "SignatureModel \<Rightarrow> ASGIConnection \<Rightarrow> string \<Rightarrow> ErrorMessage list" where
  "msgspec_messages cls connection e =
     (let keys = [case ERR_RE_search e of Some g \<Rightarrow> g | None \<Rightarrow> ''n/a'']
      in [] @ [build_error_message cls keys e connection])"

definition parse_values_from_connection_kwargs ::
  "convert \<Rightarrow> SignatureModel \<Rightarrow> ASGIConnection \<Rightarrow> (string \<times> pyval) list
     \<Rightarrow> exception + (string \<times> pyval) list" where
  "parse_values_from_connection_kwargs conv cls connection kwargs =
     (case conv kwargs cls of
        Converted struct \<Rightarrow> Inr (to_dict struct)
      | PydanticValidationError errors \<Rightarrow>
          Inl (create_exception cls connection (pydantic_messages cls connection errors))
      | ValidationError e \<Rightarrow>
          Inl (create_exception cls connection (msgspec_messages cls connection e)))"

section \<open>Type expressions of the \<^verbatim>\<open>typing\<close> module\<close>

text \<open>
  \<^verbatim>\<open>Union[params]\<close>: nested unions are flattened, repeated members are dropped (the first
  occurrence stays), no member at all is a \<^verbatim>\<open>TypeError\<close>, and a single member is returned as
  it is.
\<close>

fun flatten_union :: "ty list \<Rightarrow> ty list" where
  "flatten_union [] = []"
| "flatten_union (TUnion ts # r) = ts @ flatten_union r"
| "flatten_union (t # r) = t # flatten_union r"

definition dedup :: "'a list \<Rightarrow> 'a list" where
  "dedup xs = rev (remdups (rev xs))"

definition py_Union :: "ty list \<Rightarrow> error + ty" where
  "py_Union params =
     (case dedup (flatten_union params) of
        [] \<Rightarrow> Inl TypeError
      | [t] \<Rightarrow> Inr t
      | ts \<Rightarrow> Inr (TUnion ts))"

text \<open>\<^verbatim>\<open>Optional[t]\<close> is \<^verbatim>\<open>Union[t, None]\<close>.\<close>

definition py_Optional :: "ty \<Rightarrow> error + ty" where
  "py_Optional t = py_Union [t, TNone]"

text \<open>\<^verbatim>\<open>Annotated[t, m]\<close>: annotating an annotated type extends its metadata.\<close>

fun py_Annotated :: "ty \<Rightarrow> meta \<Rightarrow> ty" where
  "py_Annotated (TAnnotated t ms) m = TAnnotated t (ms @ [m])"
| "py_Annotated t m = TAnnotated t [m]"

text \<open>The members of a union (\<^verbatim>\<open>typing.get_args\<close> on a union); nothing for any other type.\<close>

fun union_args :: "ty \<Rightarrow> ty list" where
  "union_args (TUnion ts) = ts"
| "union_args _ = []"

text \<open>
  Modelled from the spec: \<^verbatim>\<open>litestar.utils.make_non_optional_union\<close> is not among the sources.
  The spec: ``strip the "optional" wrapper'', leaving ``the non-null inner type'': the union of
  the members other than \<^verbatim>\<open>None\<close>.
\<close>

definition make_non_optional_union :: "ty \<Rightarrow> error + ty" where
  "make_non_optional_union t = py_Union (filter (\<lambda>tp. tp \<noteq> TNone) (union_args t))"

text \<open>
  Modelled from the spec: \<^verbatim>\<open>litestar.utils.typing.unwrap_union\<close> is not among the sources.
  The spec speaks of ``every member of the union'': the members, those of nested unions included.
\<close>

definition unwrap_union :: "ty \<Rightarrow> ty list" where
  "unwrap_union t = flatten_union (union_args t)"

section \<open>The schema builder: \<^verbatim>\<open>SignatureModel.create\<close>\<close>

definition MSGSPEC_CONSTRAINT_FIELDS :: "string list" where
  "MSGSPEC_CONSTRAINT_FIELDS =
     [''gt'', ''ge'', ''lt'', ''le'', ''multiple_of'', ''pattern'', ''min_length'', ''max_length'']"

text \<open>\<^verbatim>\<open>d.pop(k, None)\<close>: the value (or \<^verbatim>\<open>None\<close>) and the dictionary without the key.\<close>

definition pop :: "string \<Rightarrow> (string \<times> pyval) list \<Rightarrow> pyval \<times> (string \<times> pyval) list" where
  "pop k d = (case map_of d k of Some v \<Rightarrow> v | None \<Rightarrow> PNone, AList.delete k d)"

text \<open>
  The loop over the remaining items of the keyword definition.  \<open>has_meta_attr k\<close> is
  \<^verbatim>\<open>hasattr(Meta, k)\<close>, a fact about msgspec that the builder takes as a parameter.
  \<^verbatim>\<open>meta_kwargs["extra"][k] = v\<close> needs the entry \<^verbatim>\<open>"extra"\<close> to be there and to be a dictionary.
\<close>

fun meta_items ::
  "(string \<Rightarrow> bool) \<Rightarrow> (string \<times> pyval) list \<Rightarrow> (string \<times> pyval) list
     \<Rightarrow> error + (string \<times> pyval) list" where
  "meta_items has_meta_attr [] meta_kwargs = Inr meta_kwargs"
| "meta_items has_meta_attr ((k, v) # items) meta_kwargs =
     (if has_meta_attr k \<and> v \<noteq> PNone
      then meta_items has_meta_attr items (AList.update k v meta_kwargs)
      else (case map_of meta_kwargs ''extra'' of
              None \<Rightarrow> Inl KeyError
            | Some (PDict e) \<Rightarrow>
                meta_items has_meta_attr items
                  (AList.update ''extra'' (PDict (AList.update k v e)) meta_kwargs)
            | Some _ \<Rightarrow> Inl TypeError))"

definition create_meta_kwargs ::
  "(string \<Rightarrow> bool) \<Rightarrow> kwarg_definition \<Rightarrow> error + (string \<times> pyval) list" where
  "create_meta_kwargs has_meta_attr kd =
     (let meta_kwargs = [(''extra'', PDict [])];
          kwarg_definition = asdict kd;
          (min_items, kwarg_definition) = pop ''min_items'' kwarg_definition;
          meta_kwargs = (if truthy min_items
                         then AList.update ''min_length'' min_items meta_kwargs
                         else meta_kwargs);
          (max_items, kwarg_definition) = pop ''max_items'' kwarg_definition;
          meta_kwargs = (if truthy max_items
                         then AList.update ''max_length'' max_items meta_kwargs
                         else meta_kwargs)
      in meta_items has_meta_attr kwarg_definition meta_kwargs)"

text \<open>
  Lines 197 to 207: \<^verbatim>\<open>meta = Meta(**meta_kwargs)\<close>, which can raise, and then the three ways the
  metadata is attached to the annotation.  \<open>Meta_init\<close> is the constructor of \<^verbatim>\<open>msgspec.Meta\<close>.
\<close>

definition annotate ::
  "((string \<times> pyval) list \<Rightarrow> error + meta) \<Rightarrow> FieldDefinition \<Rightarrow> ty
     \<Rightarrow> (string \<times> pyval) list \<Rightarrow> error + ty" where
  "annotate Meta_init field_definition ann meta_kwargs =
     (case Meta_init meta_kwargs of
        Inl e \<Rightarrow> Inl e
      | Inr m \<Rightarrow>
          if is_optional field_definition
          then (case make_non_optional_union ann of
                  Inl e \<Rightarrow> Inl e
                | Inr inner \<Rightarrow> py_Optional (py_Annotated inner m))
          else if is_union field_definition
                  \<and> set (map fst meta_kwargs) \<inter> set MSGSPEC_CONSTRAINT_FIELDS \<noteq> {}
          then py_Union (map (\<lambda>inner_type. py_Annotated inner_type m) (unwrap_union ann))
          else Inr (py_Annotated ann m))"

text \<open>One round of the loop over the parameters: the struct field of one field definition.\<close>

definition struct_field ::
  "(string \<Rightarrow> bool) \<Rightarrow> ((string \<times> pyval) list \<Rightarrow> error + meta) \<Rightarrow> (string \<rightharpoonup> ty)
     \<Rightarrow> FieldDefinition \<Rightarrow> error + (string \<times> ty \<times> pyval option)" where
  "struct_field has_meta_attr Meta_init type_overrides field_definition =
     (let ann = (case type_overrides (name field_definition) of
                   Some t \<Rightarrow> t | None \<Rightarrow> annotation field_definition);
          ann' = (case kwarg_definition field_definition of
                    None \<Rightarrow> Inr ann
                  | Some kd \<Rightarrow>
                      if is_KwargDefinition kd
                      then (case create_meta_kwargs has_meta_attr kd of
                              Inl e \<Rightarrow> Inl e
                            | Inr meta_kwargs \<Rightarrow>
                                annotate Meta_init field_definition ann meta_kwargs)
                      else (case kd of
                              DependencyKwarg skip \<Rightarrow> if skip then Inr TAny else Inr ann
                            | _ \<Rightarrow> Inr ann));
          default = (if has_default field_definition
                     then Some (default_value field_definition) else None)
      in case ann' of
           Inl e \<Rightarrow> Inl e
         | Inr a \<Rightarrow> Inr (name field_definition, a, default))"

fun collect_struct_fields ::
  "(string \<Rightarrow> bool) \<Rightarrow> ((string \<times> pyval) list \<Rightarrow> error + meta) \<Rightarrow> (string \<rightharpoonup> ty)
     \<Rightarrow> FieldDefinition list \<Rightarrow> error + (string \<times> ty \<times> pyval option) list" where
  "collect_struct_fields has_meta_attr Meta_init type_overrides [] = Inr []"
| "collect_struct_fields has_meta_attr Meta_init type_overrides (fd # fds) =
     (case struct_field has_meta_attr Meta_init type_overrides fd of
        Inl e \<Rightarrow> Inl e
      | Inr f \<Rightarrow>
          (case collect_struct_fields has_meta_attr Meta_init type_overrides fds of
             Inl e \<Rightarrow> Inl e
           | Inr fs \<Rightarrow> Inr (f # fs)))"

text \<open>
  \<^verbatim>\<open>parsed_signature\<close>, and \<^verbatim>\<open>create\<close> itself.  The callable \<open>fn\<close> is read for its \<^verbatim>\<open>__name__\<close>
  only (\<open>None\<close>: no such attribute).  \<^verbatim>\<open>validate_signature_dependencies\<close> and
  \<^verbatim>\<open>create_type_overrides\<close> belong to \<^verbatim>\<open>litestar._signature.utils\<close>, which is not among the
  sources: the builder takes them as parameters, the first one able to fail.
\<close>

record ParsedSignature =
  parameters :: "(string \<times> FieldDefinition) list"
  return_type :: FieldDefinition

definition create ::
  "(string \<Rightarrow> bool) \<Rightarrow> ((string \<times> pyval) list \<Rightarrow> error + meta)
     \<Rightarrow> (string set \<Rightarrow> string \<Rightarrow> ParsedSignature \<Rightarrow> error + string set)
     \<Rightarrow> (ParsedSignature \<Rightarrow> bool \<Rightarrow> (string \<rightharpoonup> ty))
     \<Rightarrow> string set \<Rightarrow> string option \<Rightarrow> ParsedSignature \<Rightarrow> bool
     \<Rightarrow> error + SignatureModel" where
  "create has_meta_attr Meta_init validate_signature_dependencies create_type_overrides
          dependency_names_in fn parsed_signature has_data_dto =
     (let fn_name = (case fn of None \<Rightarrow> ''anonymous'' | Some n \<Rightarrow> n);
          fn_name = (if fn_name \<noteq> [] \<and> fn_name \<noteq> ''<lambda>'' then fn_name else ''anonymous'')
      in case validate_signature_dependencies dependency_names_in fn_name parsed_signature of
           Inl e \<Rightarrow> Inl e
         | Inr dependency_names \<Rightarrow>
             (let type_overrides = create_type_overrides parsed_signature has_data_dto
              in case collect_struct_fields has_meta_attr Meta_init type_overrides
                        (map snd (parameters parsed_signature)) of
                   Inl e \<Rightarrow> Inl e
                 | Inr fs \<Rightarrow>
                     Inr \<lparr> model_name = fn_name @ ''_signature_model'',
                           struct_fields = fs,
                           return_annotation = annotation (return_type parsed_signature),
                           dependency_name_set = dependency_names,
                           model_fields = parameters parsed_signature \<rparr>))"

section \<open>Well-formed unions and the distribution of a constraint\<close>




fun metadata :: "ty \<Rightarrow> meta list" where
  "metadata (TAnnotated t ms) = ms"
| "metadata t = []"




section \<open>A handler signature used in the examples\<close>

text \<open>
  The attributes of \<^verbatim>\<open>msgspec.Meta\<close> that are constructor arguments, for the examples.
\<close>

definition msgspec_meta_attr :: "string \<Rightarrow> bool" where
  "msgspec_meta_attr k \<longleftrightarrow>
     k \<in> set [''gt'', ''ge'', ''lt'', ''le'', ''multiple_of'', ''pattern'', ''min_length'',
              ''max_length'', ''tz'', ''title'', ''description'', ''examples'',
              ''extra_json_schema'', ''extra'']"

text \<open>
  A constructor of \<^verbatim>\<open>Meta\<close> for the examples: it refuses a negative \<^verbatim>\<open>min_length\<close> or
  \<^verbatim>\<open>max_length\<close> with a \<^verbatim>\<open>ValueError\<close> and builds the object from any other arguments.
\<close>

definition example_Meta :: "(string \<times> pyval) list \<Rightarrow> error + meta" where
  "example_Meta kwargs =
     (if list_ex (\<lambda>(k, v). k \<in> set [''min_length'', ''max_length'']
                            \<and> (case v of PInt i \<Rightarrow> i < 0 | _ \<Rightarrow> False)) kwargs
      then Inl ValueError else Inr (Meta kwargs))"

text \<open>
  A handler with an injected dependency \<^verbatim>\<open>db\<close> (validation skipped), a query parameter
  \<^verbatim>\<open>limit\<close>, a header parameter \<^verbatim>\<open>token\<close> and a cookie parameter \<^verbatim>\<open>session\<close>.
\<close>

definition db_field :: FieldDefinition where
  "db_field = \<lparr> name = ''db'', annotation = TName ''Database'',
       kwarg_definition = Some (DependencyKwarg True),
       is_optional = False, is_union = False, has_default = False, default_value = PNone \<rparr>"

definition limit_field :: FieldDefinition where
  "limit_field = \<lparr> name = ''limit'', annotation = TName ''int'',
       kwarg_definition = Some (ParameterKwarg [(''gt'', PInt 0)] PNone PNone),
       is_optional = False, is_union = False, has_default = True, default_value = PInt 10 \<rparr>"

definition token_field :: FieldDefinition where
  "token_field = \<lparr> name = ''token'', annotation = TName ''str'',
       kwarg_definition =
         Some (ParameterKwarg [(''min_length'', PInt 8)] PNone (PStr ''X-Token'')),
       is_optional = False, is_union = False, has_default = False, default_value = PNone \<rparr>"

definition session_field :: FieldDefinition where
  "session_field = \<lparr> name = ''session'', annotation = TName ''str'',
       kwarg_definition = Some (ParameterKwarg [] (PStr ''sid'') PNone),
       is_optional = False, is_union = False, has_default = False, default_value = PNone \<rparr>"

definition example_signature :: ParsedSignature where
  "example_signature =
     \<lparr> parameters = [(''db'', db_field), (''limit'', limit_field),
                      (''token'', token_field), (''session'', session_field)],
       return_type = \<lparr> name = ''return'', annotation = TNone, kwarg_definition = None,
                       is_optional = False, is_union = False, has_default = False,
                       default_value = PNone \<rparr> \<rparr>"

definition example_model :: SignatureModel where
  "example_model =
     \<lparr> model_name = ''handler_signature_model'',
       struct_fields =
         [(''db'', TAny, None),
          (''limit'',
             TAnnotated (TName ''int'') [Meta [(''extra'', PDict []), (''gt'', PInt 0)]],
             Some (PInt 10)),
          (''token'',
             TAnnotated (TName ''str'') [Meta [(''extra'', PDict []), (''min_length'', PInt 8)]],
             None),
          (''session'', TAnnotated (TName ''str'') [Meta [(''extra'', PDict [])]], None)],
       return_annotation = TNone,
       dependency_name_set = {''db''},
       model_fields = parameters example_signature \<rparr>"

definition example_connection :: ASGIConnection where
  "example_connection =
     \<lparr> conn_method = Some ''GET'', url = ''/items?limit=0'', query_params = [(''limit'', ''0'')] \<rparr>"


definition union_field :: FieldDefinition where
  "union_field = \<lparr> name = ''value'',
       annotation = TUnion [TName ''str'', TName ''int''],
       kwarg_definition = Some (ParameterKwarg [(''max_length'', PInt 3)] PNone PNone),
       is_optional = False, is_union = True, has_default = False, default_value = PNone \<rparr>"


section \<open>Properties of the string helpers\<close>

lemma split_from_no_sep:
  "\<not> sublist sep s \<Longrightarrow> split_from sep cur s = [cur @ s]"
proof (induction s arbitrary: cur)
  case Nil
  then show ?case by simp
next
  case (Cons c cs)
  from Cons.prems have np: "\<not> prefix sep (c # cs)"
    using prefix_imp_sublist by blast
  from Cons.prems have "\<not> sublist sep cs"
    by (meson sublist_Cons_right)
  with Cons.IH [of "cur @ [c]"] np show ?case by simp
qed

lemma prefix_shorter:
  assumes "prefix sep (p @ sep @ r)" "p \<noteq> []" "sep \<noteq> []"
  shows "prefix sep (p @ butlast sep)"
proof -
  have "length sep \<le> length (p @ butlast sep)"
    using assms(2,3) by (cases p) auto
  moreover have "prefix (p @ butlast sep) (p @ sep @ r)"
    by (metis append_butlast_last_id assms(3) prefixI append.assoc same_prefix_prefix prefix_def)
  ultimately show ?thesis
    using assms(1) by (metis prefix_length_prefix)
qed

lemma split_from_first_sep:
  "sep \<noteq> [] \<Longrightarrow> \<not> sublist sep (p @ butlast sep) \<Longrightarrow>
     hd (split_from sep cur (p @ sep @ r)) = cur @ p"
proof (induction p arbitrary: cur)
  case Nil
  then obtain c cs where eq: "sep @ r = c # cs" by (cases sep) auto
  have "prefix sep (sep @ r)" by simp
  then have "prefix sep (c # cs)" by (simp only: eq)
  with Nil eq show ?case by simp
next
  case (Cons a p)
  have np: "\<not> prefix sep ((a # p) @ sep @ r)"
  proof
    assume "prefix sep ((a # p) @ sep @ r)"
    then have "prefix sep ((a # p) @ butlast sep)"
      using prefix_shorter [of sep "a # p" r] Cons.prems(1) by simp
    then show False using Cons.prems(2) prefix_imp_sublist by blast
  qed
  have "\<not> sublist sep (p @ butlast sep)"
    using Cons.prems(2) by (metis append_Cons sublist_Cons_right)
  with Cons.IH [of "cur @ [a]"] Cons.prems(1) np show ?case by simp
qed

lemma split_from_not_Nil: "split_from sep cur s \<noteq> []"
  by (induction sep cur s rule: split_from.induct) auto

lemma message_build:
  "message (build_error_message cls keys exc_msg connection) = hd (split '' - '' exc_msg)"
  by (simp add: build_error_message_def Let_def split: option.splits kwarg_definition.splits)

section \<open>Properties of the error aggregator\<close>

text \<open>
  C8.  The \<^verbatim>\<open>message\<close> of an ErrorMessage is the raw message up to its first \<^verbatim>\<open>" - "\<close>: when the
  separator does not occur in the raw message the whole of it, and when the raw message is
  \<open>p\<close>, the separator, \<open>r\<close>, with no occurrence of the separator starting inside \<open>p\<close>,
  just \<open>p\<close>.  This holds whatever the keys, the model and the connection are.
\<close>

theorem message_truncation:
  "(\<not> sublist '' - '' exc_msg \<longrightarrow>
      message (build_error_message cls keys exc_msg connection) = exc_msg)
   \<and> (\<forall>p r. exc_msg = p @ '' - '' @ r \<and> \<not> sublist '' - '' (p @ '' -'') \<longrightarrow>
        message (build_error_message cls keys exc_msg connection) = p)"
proof (intro conjI allI impI)
  assume "\<not> sublist '' - '' exc_msg"
  then show "message (build_error_message cls keys exc_msg connection) = exc_msg"
    by (simp add: message_build split_def split_from_no_sep)
next
  fix p r
  assume a: "exc_msg = p @ '' - '' @ r \<and> \<not> sublist '' - '' (p @ '' -'')"
  have "hd (split_from '' - '' [] (p @ '' - '' @ r)) = [] @ p"
    by (rule split_from_first_sep) (use a in simp_all)
  with a show "message (build_error_message cls keys exc_msg connection) = p"
    by (simp add: message_build split_def)
qed

theorem message_truncation_witness:
  "\<not> sublist '' - '' ''invalid value -''
   \<and> message (build_error_message example_model [''limit'']
                 ''invalid value - additional context'' example_connection) = ''invalid value''
   \<and> \<not> sublist '' - '' ''Expected int''
   \<and> message (build_error_message example_model [''limit''] ''Expected int''
                 example_connection) = ''Expected int''"
proof -
  have a: "\<not> sublist '' - '' ''invalid value -''"
    by (simp add: sublist_Cons_right)
  have b: "\<not> sublist '' - '' ''Expected int''"
    by (simp add: sublist_Cons_right)
  have c: "message (build_error_message example_model [''limit'']
                 ''invalid value - additional context'' example_connection) = ''invalid value''"
    using a message_truncation [of "''invalid value - additional context''" example_model
        "[''limit'']" example_connection, THEN conjunct2, rule_format,
        of "''invalid value''" "''additional context''"]
    by simp
  from a b c
    message_truncation [of "''Expected int''" example_model "[''limit'']" example_connection]
  show ?thesis by simp
qed

lemma key_build:
  "keys \<noteq> [] \<Longrightarrow> key (build_error_message cls keys exc_msg connection) = Some (join ''.'' keys)"
  by (simp add: build_error_message_def Let_def split: option.splits kwarg_definition.splits)

lemma key_build_Nil:
  "build_error_message cls [] exc_msg connection =
     \<lparr> key = None, message = hd (split '' - '' exc_msg), source = None \<rparr>"
  by (simp add: build_error_message_def Let_def)

lemma match_here_None: "\<not> prefix [backquote, CHR ''$'', CHR ''.''] s \<Longrightarrow> match_here s = None"
  by (simp add: match_here_def)

lemma ERR_RE_search_no_marker:
  "\<not> sublist [backquote, CHR ''$'', CHR ''.''] s \<Longrightarrow> ERR_RE_search s = None"
proof (induction s)
  case Nil
  then show ?case by simp
next
  case (Cons c cs)
  then have "\<not> prefix [backquote, CHR ''$'', CHR ''.''] (c # cs)"
    using prefix_imp_sublist by blast
  then have "match_here (c # cs) = None" by (rule match_here_None)
  moreover have "\<not> sublist [backquote, CHR ''$'', CHR ''.''] cs"
    using Cons.prems by (meson sublist_Cons_right)
  ultimately show ?case using Cons.IH by simp
qed

text \<open>
  C5.  For keys that are not empty, the key of the ErrorMessage is the keys joined by dots and
  its source is found in this order: a key that is a query parameter of the connection gives
  \<^verbatim>\<open>query\<close>, whatever the field definitions say; otherwise a field of that name that carries a
  \<^verbatim>\<open>ParameterKwarg\<close> gives \<^verbatim>\<open>cookie\<close> if its \<^verbatim>\<open>cookie\<close> is set, else \<^verbatim>\<open>header\<close> if its \<^verbatim>\<open>header\<close> is
  set, else \<^verbatim>\<open>query\<close>; with no such field, or a field without a \<^verbatim>\<open>ParameterKwarg\<close>, no source
  is set.
\<close>

theorem source_attribution:
  "keys \<noteq> [] \<Longrightarrow>
   (let k = join ''.'' keys; m = build_error_message cls keys exc_msg connection
    in key m = Some k
       \<and> (k \<in> fst ` set (query_params connection) \<longrightarrow> source m = Some Query)
       \<and> (k \<notin> fst ` set (query_params connection) \<longrightarrow>
            (\<forall>fd mp c h. map_of (model_fields cls) k = Some fd
                 \<and> kwarg_definition fd = Some (ParameterKwarg mp c h) \<longrightarrow>
               source m = Some (if truthy c then Cookie else if truthy h then Header else Query))
          \<and> (map_of (model_fields cls) k = None \<longrightarrow> source m = None)
          \<and> (\<forall>fd. map_of (model_fields cls) k = Some fd
                 \<and> (case kwarg_definition fd of None \<Rightarrow> True | Some kd \<Rightarrow> \<not> is_ParameterKwarg kd)
                \<longrightarrow> source m = None)))"
  by (auto simp: build_error_message_def Let_def split: option.splits kwarg_definition.splits)

theorem source_attribution_witness:
  "source (build_error_message example_model [''limit''] ''bad'' example_connection) = Some Query
   \<and> source (build_error_message example_model [''token''] ''bad'' example_connection) = Some Header
   \<and> source (build_error_message example_model [''session''] ''bad'' example_connection) = Some Cookie
   \<and> source (build_error_message example_model [''session''] ''bad''
               (example_connection \<lparr> query_params := [(''session'', ''1'')] \<rparr>)) = Some Query
   \<and> source (build_error_message example_model [''db''] ''bad'' example_connection) = None
   \<and> source (build_error_message example_model [''data'', ''0'', ''id''] ''bad'' example_connection) = None
   \<and> key (build_error_message example_model [''data'', ''0'', ''id''] ''bad'' example_connection) = Some ''data.0.id''"
  using source_attribution [of "[''limit'']" example_model "''bad''" example_connection]
    source_attribution [of "[''token'']" example_model "''bad''" example_connection]
    source_attribution [of "[''session'']" example_model "''bad''" example_connection]
    source_attribution [of "[''session'']" example_model "''bad''" "example_connection \<lparr> query_params := [(''session'', ''1'')] \<rparr>"]
    source_attribution [of "[''db'']" example_model "''bad''" example_connection]
    source_attribution [of "[''data'', ''0'', ''id'']" example_model "''bad''" example_connection]
  by (simp add: Let_def example_model_def example_connection_def example_signature_def
       db_field_def limit_field_def token_field_def session_field_def)

text \<open>
  C4, as the code has it.  The claim reads: a single-message failure without an extractable
  path gives an ErrorMessage with no key and no source.  The code puts the sentinel
  \<^verbatim>\<open>"n/a"\<close> into the keys, so the key is set to it:
\<close>

theorem no_path_keeps_sentinel:
  "msgspec_messages example_model example_connection ''Expected int, got str''
     = [\<lparr> key = Some ''n/a'', message = ''Expected int, got str'', source = None \<rparr>]"
  by (simp add: msgspec_messages_def build_error_message_def Let_def match_here_def
      backquote_def split_def example_model_def example_connection_def example_signature_def)

text \<open>
  C4, amended.  A single-message failure in which \<^verbatim>\<open>ERR_RE\<close> finds no path gives exactly one
  ErrorMessage, built from the keys \<^verbatim>\<open>["n/a"]\<close>: its key is \<^verbatim>\<open>"n/a"\<close>, its message is the raw
  message up to the first separator, and its source is found as for any other key, so it is
  absent exactly when \<^verbatim>\<open>"n/a"\<close> is neither a query parameter nor the name of a field with a
  \<^verbatim>\<open>ParameterKwarg\<close>.
\<close>

theorem no_path_sentinel_key:
  "ERR_RE_search e = None \<Longrightarrow>
   (\<exists>m. msgspec_messages cls connection e = [m]
        \<and> m = build_error_message cls [''n/a''] e connection
        \<and> key m = Some ''n/a''
        \<and> message m = hd (split '' - '' e)
        \<and> (source m = None \<longleftrightarrow>
             ''n/a'' \<notin> fst ` set (query_params connection)
             \<and> (case map_of (model_fields cls) ''n/a'' of
                  None \<Rightarrow> True
                | Some fd \<Rightarrow> (case kwarg_definition fd of None \<Rightarrow> True
                             | Some kd \<Rightarrow> \<not> is_ParameterKwarg kd))))"
  by (auto simp: msgspec_messages_def build_error_message_def Let_def
       split: option.splits kwarg_definition.splits)

theorem no_path_sentinel_key_witness:
  "ERR_RE_search ''Expected int, got str'' = None
   \<and> map key (msgspec_messages example_model example_connection ''Expected int, got str'')
       = [Some ''n/a'']
   \<and> map source (msgspec_messages example_model example_connection ''Expected int, got str'')
       = [None]"
proof -
  have n: "ERR_RE_search ''Expected int, got str'' = None"
    by (simp add: match_here_def backquote_def)
  from no_path_sentinel_key [OF n, of example_model example_connection]
  show ?thesis using n
    by (auto simp: example_model_def example_connection_def example_signature_def)
qed

section \<open>Properties of the classifier\<close>

lemma filter_is_subseq: "subseq (filter P xs) xs"
  by (induction xs) auto

lemma is_client_error_cases:
  "is_client_error cls m \<longleftrightarrow> (case key m of None \<Rightarrow> True | Some k \<Rightarrow> k \<notin> dependency_name_set cls)"
  by (auto simp: is_client_error_def split: option.splits)

text \<open>
  C1.  For every connection and every list of messages, \<^verbatim>\<open>client_errors\<close> is the subsequence
  of the messages that have no key or a key outside \<^verbatim>\<open>dependency_name_set\<close>.  When it is not
  empty the result is a \<^verbatim>\<open>ValidationException\<close> whose \<^verbatim>\<open>extra\<close> is exactly \<^verbatim>\<open>client_errors\<close> (the
  messages of dependency fields are left out); otherwise it is an \<^verbatim>\<open>InternalServerException\<close>,
  which carries no detail.
\<close>

theorem create_exception_client_errors:
  "(let client_errors =
         filter (\<lambda>m. case key m of None \<Rightarrow> True | Some k \<Rightarrow> k \<notin> dependency_name_set cls) messages
    in subseq client_errors messages
       \<and> create_exception cls connection messages =
           (if client_errors \<noteq> []
            then ValidationException
                   (case conn_method connection of Some m \<Rightarrow> HttpMethod m | None \<Rightarrow> WEBSOCKET,
                    url connection) client_errors
            else InternalServerException))"
proof -
  have "is_client_error cls = (\<lambda>m. case key m of None \<Rightarrow> True | Some k \<Rightarrow> k \<notin> dependency_name_set cls)"
    by (simp add: is_client_error_cases fun_eq_iff)
  then show ?thesis
    by (simp add: create_exception_def Let_def filter_is_subseq)
qed

theorem create_exception_client_errors_witness:
  "create_exception example_model example_connection
     [\<lparr> key = Some ''db'', message = ''bad db'', source = None \<rparr>,
      \<lparr> key = Some ''limit'', message = ''too small'', source = Some Query \<rparr>]
   = ValidationException (HttpMethod ''GET'', ''/items?limit=0'')
       [\<lparr> key = Some ''limit'', message = ''too small'', source = Some Query \<rparr>]
   \<and> create_exception example_model example_connection
     [\<lparr> key = Some ''db'', message = ''bad db'', source = None \<rparr>] = InternalServerException"
  using create_exception_client_errors [of example_model "[\<lparr> key = Some ''db'', message = ''bad db'', source = None \<rparr>,
      \<lparr> key = Some ''limit'', message = ''too small'', source = Some Query \<rparr>]" example_connection]
    create_exception_client_errors [of example_model "[\<lparr> key = Some ''db'', message = ''bad db'', source = None \<rparr>]" example_connection]
  by (simp add: example_model_def example_connection_def Let_def)

text \<open>
  C2, as the code has it.  The claim reads: an error whose key is absent is an internal error,
  and a failure whose messages all lack a key is a server error.  The code keeps a message
  without a key among the client errors:
\<close>

theorem keyless_failure_is_client_error:
  "create_exception example_model example_connection
     [\<lparr> key = None, message = ''Expected object'', source = None \<rparr>]
   = ValidationException (HttpMethod ''GET'', ''/items?limit=0'')
       [\<lparr> key = None, message = ''Expected object'', source = None \<rparr>]"
  by (simp add: create_exception_def is_client_error_def example_model_def example_connection_def)

text \<open>
  C2, amended.  A message is internal exactly when it has a key and that key is in
  \<^verbatim>\<open>dependency_name_set\<close>; every other message, those without a key included, is a client
  error.  The result is the server error exactly when every message is internal; a failure
  with at least one message, all without a key, is a client error that carries all of them.
\<close>

theorem internal_iff_dependency_keys:
  "(is_client_error cls m \<longleftrightarrow> \<not> (\<exists>k. key m = Some k \<and> k \<in> dependency_name_set cls))
   \<and> (create_exception cls connection messages = InternalServerException
        \<longleftrightarrow> (\<forall>m \<in> set messages. \<exists>k. key m = Some k \<and> k \<in> dependency_name_set cls))
   \<and> (messages \<noteq> [] \<and> (\<forall>m \<in> set messages. key m = None) \<longrightarrow>
        create_exception cls connection messages =
          ValidationException
            (case conn_method connection of Some m \<Rightarrow> HttpMethod m | None \<Rightarrow> WEBSOCKET,
             url connection) messages)"
proof (intro conjI impI)
  show c: "\<And>m. is_client_error cls m \<longleftrightarrow> \<not> (\<exists>k. key m = Some k \<and> k \<in> dependency_name_set cls)"
    by (auto simp: is_client_error_def)
  show "create_exception cls connection messages = InternalServerException
        \<longleftrightarrow> (\<forall>m \<in> set messages. \<exists>k. key m = Some k \<and> k \<in> dependency_name_set cls)"
    using c by (auto simp: create_exception_def Let_def filter_empty_conv)
  assume a: "messages \<noteq> [] \<and> (\<forall>m \<in> set messages. key m = None)"
  then have "filter (is_client_error cls) messages = messages"
    by (auto simp: is_client_error_def filter_id_conv)
  with a show "create_exception cls connection messages =
          ValidationException
            (case conn_method connection of Some m \<Rightarrow> HttpMethod m | None \<Rightarrow> WEBSOCKET,
             url connection) messages"
    by (simp add: create_exception_def Let_def)
qed

theorem internal_iff_dependency_keys_witness:
  "create_exception example_model example_connection
     [\<lparr> key = Some ''db'', message = ''bad db'', source = None \<rparr>] = InternalServerException
   \<and> create_exception example_model example_connection
     [\<lparr> key = None, message = ''bad'', source = None \<rparr>]
      = ValidationException (HttpMethod ''GET'', ''/items?limit=0'')
         [\<lparr> key = None, message = ''bad'', source = None \<rparr>]"
  using internal_iff_dependency_keys [of example_model _ example_connection
      "[\<lparr> key = Some ''db'', message = ''bad db'', source = None \<rparr>]"]
    internal_iff_dependency_keys [of example_model _ example_connection
      "[\<lparr> key = None, message = ''bad'', source = None \<rparr>]"]
  by (simp add: example_model_def example_connection_def)

section \<open>Properties of the pipeline\<close>

text \<open>
  C10.  When the convert primitive fails with a single message in which \<^verbatim>\<open>ERR_RE\<close> finds no
  path, and \<^verbatim>\<open>"n/a"\<close> is not a dependency name, the pipeline raises a \<^verbatim>\<open>ValidationException\<close>
  whose \<^verbatim>\<open>extra\<close> is one ErrorMessage with the key \<^verbatim>\<open>"n/a"\<close>.
\<close>

theorem no_path_client_error:
  "conv kwargs cls = ValidationError e \<Longrightarrow> ERR_RE_search e = None \<Longrightarrow>
   ''n/a'' \<notin> dependency_name_set cls \<Longrightarrow>
   (\<exists>m. parse_values_from_connection_kwargs conv cls connection kwargs =
           Inl (ValidationException
                  (case conn_method connection of Some x \<Rightarrow> HttpMethod x | None \<Rightarrow> WEBSOCKET,
                   url connection) [m])
        \<and> key m = Some ''n/a'')"
  by (simp add: parse_values_from_connection_kwargs_def msgspec_messages_def
      create_exception_def is_client_error_def key_build Let_def)

theorem no_path_client_error_witness:
  "ERR_RE_search ''Expected int, got str'' = None
   \<and> ''n/a'' \<notin> dependency_name_set example_model
   \<and> parse_values_from_connection_kwargs (\<lambda>kwargs cls. ValidationError ''Expected int, got str'')
        example_model example_connection [(''limit'', PStr ''x'')]
      = Inl (ValidationException (HttpMethod ''GET'', ''/items?limit=0'')
          [\<lparr> key = Some ''n/a'', message = ''Expected int, got str'', source = None \<rparr>])"
proof -
  have n: "ERR_RE_search ''Expected int, got str'' = None"
    by (simp add: match_here_def backquote_def)
  have d: "''n/a'' \<notin> dependency_name_set example_model"
    by (simp add: example_model_def)
  have c: "(\<lambda>kwargs cls. ValidationError ''Expected int, got str'') [(''limit'', PStr ''x'')] example_model
      = ValidationError ''Expected int, got str''" by simp
  from no_path_client_error [of "\<lambda>kwargs cls. ValidationError ''Expected int, got str''", OF c n d, of example_connection]
  show ?thesis using n d
    by (auto simp: parse_values_from_connection_kwargs_def msgspec_messages_def
       build_error_message_def create_exception_def is_client_error_def split_def Let_def
       example_model_def example_connection_def example_signature_def)
qed

section \<open>Properties of the schema builder\<close>

lemma example_model_created:
  "create msgspec_meta_attr example_Meta (\<lambda>deps fn_name sig. Inr deps) (\<lambda>sig dto. Map.empty)
     {''db''} (Some ''handler'') example_signature False = Inr example_model"
  by (simp add: create_def example_signature_def example_model_def struct_field_def
      db_field_def limit_field_def token_field_def session_field_def
      create_meta_kwargs_def pop_def annotate_def msgspec_meta_attr_def example_Meta_def Let_def)

lemma struct_field_skip_validation:
  "kwarg_definition fd = Some (DependencyKwarg True) \<Longrightarrow>
   struct_field hm mi tov fd =
     Inr (name fd, TAny, if has_default fd then Some (default_value fd) else None)"
  by (simp add: struct_field_def Let_def)

lemma collect_struct_fields_member:
  "collect_struct_fields hm mi tov fds = Inr fs \<Longrightarrow> fd \<in> set fds \<Longrightarrow>
   struct_field hm mi tov fd = Inr f \<Longrightarrow> f \<in> set fs"
  by (induction fds arbitrary: fs) (auto split: sum.splits)

lemma create_struct_fields:
  "create hm mi vsd cto deps fn sig dto = Inr cls \<Longrightarrow>
   collect_struct_fields hm mi (cto sig dto) (map snd (parameters sig)) = Inr (struct_fields cls)"
  by (auto simp: create_def Let_def split: sum.splits)











lemma struct_field_kwarg:
  "kwarg_definition fd = Some kd \<Longrightarrow> is_KwargDefinition kd \<Longrightarrow>
   create_meta_kwargs hm kd = Inr mk \<Longrightarrow>
   struct_field hm mi tov fd =
     (case annotate mi fd (case tov (name fd) of Some t \<Rightarrow> t | None \<Rightarrow> annotation fd) mk of
        Inl e \<Rightarrow> Inl e
      | Inr a \<Rightarrow> Inr (name fd, a, if has_default fd then Some (default_value fd) else None))"
  by (simp add: struct_field_def Let_def)

lemma struct_field_Meta_error:
  "kwarg_definition fd = Some kd \<Longrightarrow> is_KwargDefinition kd \<Longrightarrow>
   create_meta_kwargs hm kd = Inr mk \<Longrightarrow> mi mk = Inl e \<Longrightarrow>
   struct_field hm mi tov fd = Inl e"
  by (simp add: struct_field_kwarg annotate_def)

text \<open>
  An error of the \<^verbatim>\<open>Meta\<close> constructor ends the building of the field: with \<^verbatim>\<open>min_items=-1\<close> the
  metadata holds \<^verbatim>\<open>min_length=-1\<close>, which the constructor of the examples refuses.
\<close>

lemma negative_length_raises:
  "struct_field msgspec_meta_attr example_Meta Map.empty
     (union_field \<lparr> kwarg_definition :=
        Some (ParameterKwarg [(''min_items'', PInt (- 1))] PNone PNone) \<rparr>) = Inl ValueError"
  by (simp add: struct_field_def union_field_def create_meta_kwargs_def pop_def
      annotate_def example_Meta_def Let_def)


lemma metadata_py_Annotated: "m \<in> set (metadata (py_Annotated t m))"
  by (cases t) auto



text \<open>
  C6, at the value the code misses.  \<^verbatim>\<open>if max_items := kwarg_definition.pop("max_items", None)\<close>
  tests the truth of the value, so \<^verbatim>\<open>max_items=0\<close> is taken out of the mapping and never put
  under \<^verbatim>\<open>max_length\<close>: the metadata holds nothing but the empty \<^verbatim>\<open>extra\<close>.
\<close>

theorem max_items_zero_dropped:
  "create_meta_kwargs hm (ParameterKwarg [(''max_items'', PInt 0)] PNone PNone)
     = Inr [(''extra'', PDict [])]"
  by (simp add: create_meta_kwargs_def pop_def)

lemma meta_items_keeps:
  "meta_items hm items mk = Inr mk' \<Longrightarrow> map_of mk k = Some v \<Longrightarrow> k \<noteq> ''extra'' \<Longrightarrow>
   (\<forall>w. (k, w) \<in> set items \<longrightarrow> \<not> (hm k \<and> w \<noteq> PNone)) \<Longrightarrow> map_of mk' k = Some v"
proof (induction items arbitrary: mk)
  case Nil
  then show ?case by simp
next
  case (Cons kv items)
  obtain k' v' where kv: "kv = (k', v')" by (cases kv)
  show ?case
  proof (cases "hm k' \<and> v' \<noteq> PNone")
    case True
    then have ne: "k' \<noteq> k" using Cons.prems(4) kv by auto
    from True Cons.prems(1) kv
    have "meta_items hm items (AList.update k' v' mk) = Inr mk'" by simp
    moreover have "map_of (AList.update k' v' mk) k = Some v"
      using ne Cons.prems(2) by (simp add: update_conv')
    ultimately show ?thesis
      using Cons.IH Cons.prems(3,4) by auto
  next
    case False
    with Cons.prems(1) kv obtain e where
      e: "map_of mk ''extra'' = Some (PDict e)"
      and r: "meta_items hm items (AList.update ''extra'' (PDict (AList.update k' v' e)) mk) = Inr mk'"
      by (auto split: option.splits pyval.splits)
    have "map_of (AList.update ''extra'' (PDict (AList.update k' v' e)) mk) k = Some v"
      using Cons.prems(2,3) by (simp add: update_conv')
    with r show ?thesis
      using Cons.IH Cons.prems(3,4) by auto
  qed
qed

lemma create_meta_kwargs_unfold:
  "create_meta_kwargs hm kd =
     meta_items hm (AList.delete ''max_items'' (AList.delete ''min_items'' (asdict kd)))
       (let mn = (case map_of (asdict kd) ''min_items'' of Some v \<Rightarrow> v | None \<Rightarrow> PNone);
            mx = (case map_of (asdict kd) ''max_items'' of Some v \<Rightarrow> v | None \<Rightarrow> PNone);
            m1 = (if truthy mn then AList.update ''min_length'' mn [(''extra'', PDict [])]
                  else [(''extra'', PDict [])])
        in if truthy mx then AList.update ''max_length'' mx m1 else m1)"
  by (simp add: create_meta_kwargs_def pop_def Let_def)

text \<open>
  X1.  The renaming where it does take place: a value of \<^verbatim>\<open>min_items\<close> that is true in Python's
  sense ends up under \<^verbatim>\<open>min_length\<close>, unless the mapping also has a \<^verbatim>\<open>min_length\<close> that is not
  \<^verbatim>\<open>None\<close> and that \<^verbatim>\<open>Meta\<close> takes, which is written later and wins; likewise for
  \<^verbatim>\<open>max_items\<close> and \<^verbatim>\<open>max_length\<close>.
\<close>

theorem items_renamed_to_length:
  assumes "create_meta_kwargs hm kd = Inr mk"
  shows "(\<forall>v. map_of (asdict kd) ''min_items'' = Some v \<and> truthy v
             \<and> (\<forall>w. (''min_length'', w) \<in> set (asdict kd) \<longrightarrow> \<not> (hm ''min_length'' \<and> w \<noteq> PNone))
           \<longrightarrow> map_of mk ''min_length'' = Some v)
       \<and> (\<forall>v. map_of (asdict kd) ''max_items'' = Some v \<and> truthy v
             \<and> (\<forall>w. (''max_length'', w) \<in> set (asdict kd) \<longrightarrow> \<not> (hm ''max_length'' \<and> w \<noteq> PNone))
           \<longrightarrow> map_of mk ''max_length'' = Some v)"
proof (intro conjI allI impI)
  let ?d2 = "AList.delete ''max_items'' (AList.delete ''min_items'' (asdict kd))"
  define mk0 where "mk0 =
       (let mn = (case map_of (asdict kd) ''min_items'' of Some v \<Rightarrow> v | None \<Rightarrow> PNone);
            mx = (case map_of (asdict kd) ''max_items'' of Some v \<Rightarrow> v | None \<Rightarrow> PNone);
            m1 = (if truthy mn then AList.update ''min_length'' mn [(''extra'', PDict [])]
                  else [(''extra'', PDict [])])
        in if truthy mx then AList.update ''max_length'' mx m1 else m1)"
  have sub: "set ?d2 \<subseteq> set (asdict kd)"
    by (auto simp: AList.delete_eq)
  have run: "meta_items hm ?d2 mk0 = Inr mk"
    using assms unfolding create_meta_kwargs_unfold mk0_def .
  {
    fix v
    assume a: "map_of (asdict kd) ''min_items'' = Some v \<and> truthy v
             \<and> (\<forall>w. (''min_length'', w) \<in> set (asdict kd) \<longrightarrow> \<not> (hm ''min_length'' \<and> w \<noteq> PNone))"
    then have "map_of mk0 ''min_length'' = Some v"
      by (simp add: mk0_def Let_def update_conv')
    moreover have "\<forall>w. (''min_length'', w) \<in> set ?d2 \<longrightarrow> \<not> (hm ''min_length'' \<and> w \<noteq> PNone)"
      using a sub by blast
    ultimately show "map_of mk ''min_length'' = Some v"
      using meta_items_keeps [OF run] by simp
  }
  {
    fix v
    assume a: "map_of (asdict kd) ''max_items'' = Some v \<and> truthy v
             \<and> (\<forall>w. (''max_length'', w) \<in> set (asdict kd) \<longrightarrow> \<not> (hm ''max_length'' \<and> w \<noteq> PNone))"
    then have "map_of mk0 ''max_length'' = Some v"
      by (simp add: mk0_def Let_def update_conv')
    moreover have "\<forall>w. (''max_length'', w) \<in> set ?d2 \<longrightarrow> \<not> (hm ''max_length'' \<and> w \<noteq> PNone)"
      using a sub by blast
    ultimately show "map_of mk ''max_length'' = Some v"
      using meta_items_keeps [OF run] by simp
  }
qed

theorem items_renamed_to_length_witness:
  "map_of [(''extra'', PDict [(''required'', PBool True)]),
           (''min_length'', PInt 2), (''max_length'', PInt 5)] ''min_length'' = Some (PInt 2)
   \<and> map_of [(''extra'', PDict [(''required'', PBool True)]),
           (''min_length'', PInt 2), (''max_length'', PInt 5)] ''max_length'' = Some (PInt 5)
   \<and> create_meta_kwargs msgspec_meta_attr
        (ParameterKwarg [(''min_items'', PInt 2), (''max_items'', PInt 5),
                         (''required'', PBool True)] PNone PNone)
      = Inr [(''extra'', PDict [(''required'', PBool True)]),
           (''min_length'', PInt 2), (''max_length'', PInt 5)]"
proof -
  have c: "create_meta_kwargs msgspec_meta_attr
        (ParameterKwarg [(''min_items'', PInt 2), (''max_items'', PInt 5),
                         (''required'', PBool True)] PNone PNone)
      = Inr [(''extra'', PDict [(''required'', PBool True)]),
           (''min_length'', PInt 2), (''max_length'', PInt 5)]"
    by (simp add: create_meta_kwargs_def pop_def msgspec_meta_attr_def)
  from items_renamed_to_length [OF c] c show ?thesis by simp
qed

text \<open>
  C7.  A parameter whose keyword definition is a \<^verbatim>\<open>DependencyKwarg\<close> with \<^verbatim>\<open>skip_validation\<close> set
  gets the struct field type \<^verbatim>\<open>Any\<close> in the model that \<^verbatim>\<open>create\<close> returns, whatever its declared
  type or type override.  Hence, for any acceptance test of the decode primitive that lets
  every value pass for \<^verbatim>\<open>Any\<close>, the field has a type that accepts every value.
\<close>

theorem skip_validation_accepts_anything:
  assumes "create hm mi vsd cto deps fn sig dto = Inr cls"
    and "(n, fd) \<in> set (parameters sig)"
    and "kwarg_definition fd = Some (DependencyKwarg True)"
  shows "(name fd, TAny, if has_default fd then Some (default_value fd) else None)
           \<in> set (struct_fields cls)
       \<and> ((\<forall>v. accepts TAny v) \<longrightarrow>
            (\<exists>t d. (name fd, t, d) \<in> set (struct_fields cls) \<and> (\<forall>v. accepts t v)))"
proof -
  have "fd \<in> set (map snd (parameters sig))"
    using assms(2) by force
  with create_struct_fields [OF assms(1)] struct_field_skip_validation [OF assms(3)]
  have "(name fd, TAny, if has_default fd then Some (default_value fd) else None)
           \<in> set (struct_fields cls)"
    by (metis collect_struct_fields_member)
  then show ?thesis by blast
qed

theorem skip_validation_accepts_anything_witness:
  "(''db'', TAny, None) \<in> set (struct_fields example_model)
   \<and> (\<exists>t d. (''db'', t, d) \<in> set (struct_fields example_model)
        \<and> (\<forall>v. t = TAny \<or> (t = TName ''Database'' \<and> v = PStr ''connection'')))"
proof -
  have p: "(''db'', db_field) \<in> set (parameters example_signature)"
    by (simp add: example_signature_def)
  have k: "kwarg_definition db_field = Some (DependencyKwarg True)"
    by (simp add: db_field_def)
  from skip_validation_accepts_anything [OF example_model_created p k,
      of "\<lambda>t v. t = TAny \<or> (t = TName ''Database'' \<and> v = PStr ''connection'')"]
  show ?thesis by (simp add: db_field_def)
qed

section \<open>Further properties\<close>

lemma match_here_Some:
  assumes "match_here s = Some g"
  shows "(s = [backquote, CHR ''$'', CHR ''.''] @ g @ [backquote]
          \<or> s = [backquote, CHR ''$'', CHR ''.''] @ g @ [backquote, newline])
         \<and> g \<noteq> [] \<and> newline \<notin> set g"
proof -
  let ?mk = "[backquote, CHR ''$'', CHR ''.'']"
  from assms have pre: "prefix ?mk s"
    by (auto simp: match_here_def split: if_splits)
  then obtain r where s: "s = ?mk @ r" by (auto simp: prefix_def)
  then have r: "drop 3 s = r" by simp
  define r' where "r' = (if r \<noteq> [] \<and> last r = newline then butlast r else r)"
  from assms pre r have c: "r' \<noteq> []" "last r' = backquote" "butlast r' \<noteq> []"
      "newline \<notin> set (butlast r')" "g = butlast r'"
    by (auto simp: match_here_def r'_def Let_def split: if_splits)
  from c(1,2,5) have r'g: "r' = g @ [backquote]"
    by (metis append_butlast_last_id)
  have "r = r' \<or> r = r' @ [newline]"
    unfolding r'_def by (metis append_butlast_last_id)
  with r'g s c show ?thesis by auto
qed

text \<open>
  X2.  What \<^verbatim>\<open>ERR_RE\<close> extracts: when the search returns a group, the message ends with the
  marker, the group and a backquote (or these followed by one final newline), and the group
  is not empty and holds no newline.
\<close>

theorem ERR_RE_search_Some:
  "ERR_RE_search s = Some g \<Longrightarrow>
   (\<exists>pre. s = pre @ [backquote, CHR ''$'', CHR ''.''] @ g @ [backquote]
         \<or> s = pre @ [backquote, CHR ''$'', CHR ''.''] @ g @ [backquote, newline])
   \<and> g \<noteq> [] \<and> newline \<notin> set g"
proof (induction s)
  case Nil
  then show ?case by simp
next
  case (Cons c cs)
  show ?case
  proof (cases "match_here (c # cs)")
    case None
    with Cons.prems have "ERR_RE_search cs = Some g" by simp
    from Cons.IH [OF this] obtain pre where
      "(cs = pre @ [backquote, CHR ''$'', CHR ''.''] @ g @ [backquote]
         \<or> cs = pre @ [backquote, CHR ''$'', CHR ''.''] @ g @ [backquote, newline])"
      and g: "g \<noteq> [] \<and> newline \<notin> set g" by blast
    then have "c # cs = (c # pre) @ [backquote, CHR ''$'', CHR ''.''] @ g @ [backquote]
         \<or> c # cs = (c # pre) @ [backquote, CHR ''$'', CHR ''.''] @ g @ [backquote, newline]"
      by auto
    with g show ?thesis by blast
  next
    case (Some g')
    with Cons.prems have "g' = g" by simp
    with Some match_here_Some [of "c # cs" g]
    have "(c # cs = [] @ [backquote, CHR ''$'', CHR ''.''] @ g @ [backquote]
          \<or> c # cs = [] @ [backquote, CHR ''$'', CHR ''.''] @ g @ [backquote, newline])
         \<and> g \<noteq> [] \<and> newline \<notin> set g" by simp
    then show ?thesis by blast
  qed
qed

theorem ERR_RE_search_Some_witness:
  "ERR_RE_search ''Expected `int`, got `str` - at `$.limit`'' = Some ''limit''
   \<and> ''Expected `int`, got `str` - at `$.limit`''
       = ''Expected `int`, got `str` - at '' @ [backquote, CHR ''$'', CHR ''.''] @ ''limit'' @ [backquote]"
proof -
  have a: "ERR_RE_search ''Expected `int`, got `str` - at `$.limit`'' = Some ''limit''"
    by (simp add: match_here_def backquote_def newline_def)
  from ERR_RE_search_Some [OF a] a show ?thesis by (simp add: backquote_def)
qed

lemma collect_struct_fields_names:
  "collect_struct_fields hm mi tov fds = Inr fs \<Longrightarrow> map fst fs = map name fds"
proof (induction fds arbitrary: fs)
  case Nil
  then show ?case by simp
next
  case (Cons fd fds)
  then show ?case
    by (auto simp: struct_field_def Let_def split: sum.splits)
qed

text \<open>
  X3.  The model that \<^verbatim>\<open>create\<close> returns has one struct field per parameter, in the order of
  the parameters and under their names; its class variable \<^verbatim>\<open>fields\<close> is the parameters of the
  signature, its \<^verbatim>\<open>dependency_name_set\<close> is what the validation of the dependency names
  returned, and its \<^verbatim>\<open>return_annotation\<close> is the annotation of the return type.
\<close>

theorem create_class_data:
  "create hm mi vsd cto deps fn sig dto = Inr cls \<Longrightarrow>
   map fst (struct_fields cls) = map (name \<circ> snd) (parameters sig)
   \<and> model_fields cls = parameters sig
   \<and> vsd deps (if fn = None \<or> fn = Some [] \<or> fn = Some ''<lambda>'' then ''anonymous'' else the fn) sig
        = Inr (dependency_name_set cls)
   \<and> return_annotation cls = annotation (return_type sig)"
proof -
  assume a: "create hm mi vsd cto deps fn sig dto = Inr cls"
  have n: "(let fn_name = (case fn of None \<Rightarrow> ''anonymous'' | Some n \<Rightarrow> n)
            in if fn_name \<noteq> [] \<and> fn_name \<noteq> ''<lambda>'' then fn_name else ''anonymous'')
           = (if fn = None \<or> fn = Some [] \<or> fn = Some ''<lambda>'' then ''anonymous'' else the fn)"
    by (cases fn) (auto simp: Let_def)
  from a have "map fst (struct_fields cls) = map name (map snd (parameters sig))"
    using collect_struct_fields_names [of hm mi "cto sig dto" "map snd (parameters sig)" "struct_fields cls"]
    by (auto simp: create_def Let_def split: sum.splits)
  moreover from a have "model_fields cls = parameters sig"
      "return_annotation cls = annotation (return_type sig)"
    by (auto simp: create_def Let_def split: sum.splits)
  moreover from a have "vsd deps (if fn = None \<or> fn = Some [] \<or> fn = Some ''<lambda>'' then ''anonymous'' else the fn) sig
        = Inr (dependency_name_set cls)"
    unfolding create_def n [symmetric]
    by (auto simp: Let_def split: sum.splits)
  ultimately show ?thesis by simp
qed

theorem create_class_data_witness:
  "map fst (struct_fields example_model) = [''db'', ''limit'', ''token'', ''session'']
   \<and> model_fields example_model = parameters example_signature
   \<and> dependency_name_set example_model = {''db''}"
  using create_class_data [OF example_model_created]
  by (simp add: example_signature_def db_field_def limit_field_def token_field_def
      session_field_def)

end
